theory Spec2Isabelle
  imports Complex_Main "HOL-Library.Log_Nat"
begin

section \<open>Quad gantry levelling: the model\<close>

text \<open>
  A shallow embedding of \<^verbatim>\<open>klippy/extras/just_a_quad_gantry_level.py\<close>.

  Numbers are exact rationals (\<^typ>\<open>rat\<close>): the arithmetic of the source is read as
  exact arithmetic. Python computes in binary64 floats; where that matters, in
  \<^verbatim>\<open>linefit\<close>, the same lines are also given with every operation rounded
  (\<open>linefit_float\<close>).

  A Python call either returns or raises, and on its way it calls the collaborators
  (\<^verbatim>\<open>gcode.respond_info\<close>, \<^verbatim>\<open>logging.info\<close>, \<^verbatim>\<open>a_helper.adjust_steppers\<close>,
  \<^verbatim>\<open>retry_helper.check_retry\<close>, \<^verbatim>\<open>gcode.register_command\<close>). A run is therefore the
  list of collaborator calls made so far, in order, with the outcome: \<open>Inl\<close> the
  exception raised, \<open>Inr\<close> the value returned.
\<close>

subsection \<open>Exceptions, collaborator calls, runs\<close>

type_synonym point = "rat \<times> rat"

type_synonym fit = "rat \<times> rat"

text \<open>
  A message is the format string cut at its \<^verbatim>\<open>%0.6f\<close> directives: \<open>Text\<close> is literal
  text, \<open>Float6 v\<close> is the number \<open>v\<close> printed by \<^verbatim>\<open>%0.6f\<close>.
\<close>

datatype piece = Text string | Float6 rat

datatype error =
    IndexError
  | ZeroDivisionError
  | ValueError
  | Config_error string
  | Gcode_error "piece list"

text \<open>
  The informational outputs carry the values they print: \<open>Points_message\<close> is the
  text "Gantry-relative probe points" of lines 69-76, \<open>Actuator_positions\<close> the text of
  lines 119-121, \<open>Average\<close> that of line 124; \<open>F1_f2\<close> and \<open>Af_bf\<close> are the two log lines
  (86-88 and 109-111).
\<close>

datatype info = Points_message "rat list" | Actuator_positions "rat list" | Average rat

datatype log = F1_f2 fit fit | Af_bf fit fit

datatype effect =
    Respond_info info
  | Logging_info log
  | Adjust_steppers "rat list" rat
  | Check_retry "rat list"
  | Register_command string

type_synonym 'a run = "effect list \<times> (error + 'a)"

definition ret :: "'a \<Rightarrow> 'a run" where
  "ret a = ([], Inr a)"

definition raise :: "error \<Rightarrow> 'a run" where
  "raise e = ([], Inl e)"

definition emit :: "effect \<Rightarrow> unit run" where
  "emit ev = ([ev], Inr ())"

text \<open>Sequencing: an exception of the first part ends the run, its calls stay made.\<close>

definition bnd :: "'a run \<Rightarrow> ('a \<Rightarrow> 'b run) \<Rightarrow> 'b run" where
  "bnd m f =
     (case snd m of
        Inl e \<Rightarrow> (fst m, Inl e)
      | Inr a \<Rightarrow> (fst m @ fst (f a), snd (f a)))"

text \<open>Python's \<^verbatim>\<open>xs[i]\<close> for a constant index \<open>i \<ge> 0\<close>.\<close>

definition item :: "'a list \<Rightarrow> nat \<Rightarrow> 'a run" where
  "item xs i = (if i < length xs then ret (xs ! i) else raise IndexError)"

text \<open>A list comprehension \<^verbatim>\<open>[f(p) for p in ps]\<close> whose body may raise.\<close>

fun comprehension :: "('a \<Rightarrow> 'b run) \<Rightarrow> 'a list \<Rightarrow> 'b list run" where
  "comprehension f [] = ret []"
| "comprehension f (p # ps) =
     bnd (f p) (\<lambda>v. bnd (comprehension f ps) (\<lambda>vs. ret (v # vs)))"

text \<open>The two-element list literal \<^verbatim>\<open>[e1, e2]\<close>, evaluated left to right.\<close>

definition pt :: "rat run \<Rightarrow> rat run \<Rightarrow> point run" where
  "pt e1 e2 = bnd e1 (\<lambda>x. bnd e2 (\<lambda>y. ret (x, y)))"

text \<open>Python's \<^verbatim>\<open>max(xs)\<close>: \<^verbatim>\<open>ValueError\<close> on the empty list.\<close>

fun max_of :: "rat list \<Rightarrow> rat run" where
  "max_of [] = raise ValueError"
| "max_of (x # xs) = ret (fold max xs x)"

subsection \<open>linefit and plot (lines 144-153)\<close>

text \<open>
  The points and the fit are the two-element lists and the tuple of the source, as pairs.
  Python's \<^verbatim>\<open>/\<close> raises \<^verbatim>\<open>ZeroDivisionError\<close> on a zero denominator.
\<close>

definition linefit :: "point \<Rightarrow> point \<Rightarrow> fit run" where
  "linefit p1 p2 =
     (if snd p1 = snd p2 then ret (0, snd p1)
      else if fst p2 - fst p1 = 0 then raise ZeroDivisionError
      else (let m = (snd p2 - snd p1) / (fst p2 - fst p1);
                b = snd p1 - m * fst p1
            in ret (m, b)))"

definition plot :: "fit \<Rightarrow> rat \<Rightarrow> rat" where
  "plot f x = fst f * x + snd f"

subsection \<open>linefit in binary64 arithmetic\<close>

text \<open>
  A Python float is an IEEE 754 binary64 number: \<open>Finite r\<close> with \<open>r\<close> the rational
  it denotes, an infinity or a NaN. The two zeros are one value here: their sign shows
  in none of \<^verbatim>\<open>==\<close>, \<^verbatim>\<open>+\<close>, \<^verbatim>\<open>-\<close>, \<^verbatim>\<open>*\<close>, nor in Python's \<^verbatim>\<open>/\<close>, which raises
  on a zero divisor.
\<close>

datatype float = Finite rat | PInf | NInf | NaN

text \<open>
  Rounding to the nearest binary64 number, ties to the even significand: \<open>binade a\<close>
  is the exponent \<open>e\<close> with \<open>2^e \<le> a < 2^(e+1)\<close>, a significand has 53 bits, so that
  the spacing in that binade is \<open>2^(e-52)\<close>; below \<open>2^-1022\<close> the spacing stays
  \<open>2^-1074\<close> (subnormal numbers), and a result of magnitude \<open>2^1024\<close> or more is an
  infinity.
\<close>

definition pow2 :: "int \<Rightarrow> rat" where
  "pow2 k = (if 0 \<le> k then 2 ^ nat k else 1 / 2 ^ nat (- k))"

definition binade :: "rat \<Rightarrow> int" where
  "binade a =
     (let k = bitlen (fst (quotient_of a)) - bitlen (snd (quotient_of a))
      in if pow2 k \<le> a then k else k - 1)"

definition rne :: "rat \<Rightarrow> int" where
  "rne q =
     (let f = \<lfloor>q\<rfloor>; d = q - of_int f
      in if d < 1 / 2 then f else if 1 / 2 < d then f + 1
         else if even f then f else f + 1)"

definition round64 :: "rat \<Rightarrow> float" where
  "round64 x =
     (if x = 0 then Finite 0
      else (let e = max (binade \<bar>x\<bar>) (- 1022);
                ulp = pow2 (e - 52);
                r = of_int (rne (x / ulp)) * ulp
            in if pow2 1024 \<le> \<bar>r\<bar> then (if 0 < r then PInf else NInf) else Finite r))"

definition is_double :: "rat \<Rightarrow> bool" where
  "is_double x \<longleftrightarrow> round64 x = Finite x"

text \<open>
  The operations: the exact result, rounded; the special values as IEEE 754 has them.
  Python's \<^verbatim>\<open>/\<close> raises \<^verbatim>\<open>ZeroDivisionError\<close> on a zero divisor, whatever the dividend;
  \<^verbatim>\<open>==\<close> is false on a NaN.
\<close>

fun fneg :: "float \<Rightarrow> float" where
  "fneg (Finite a) = Finite (- a)"
| "fneg PInf = NInf"
| "fneg NInf = PInf"
| "fneg NaN = NaN"

fun fadd :: "float \<Rightarrow> float \<Rightarrow> float" where
  "fadd NaN _ = NaN"
| "fadd _ NaN = NaN"
| "fadd (Finite a) (Finite b) = round64 (a + b)"
| "fadd (Finite a) y = y"
| "fadd x (Finite b) = x"
| "fadd x y = (if x = y then x else NaN)"

definition fsub :: "float \<Rightarrow> float \<Rightarrow> float" where
  "fsub x y = fadd x (fneg y)"

fun fmul :: "float \<Rightarrow> float \<Rightarrow> float" where
  "fmul NaN _ = NaN"
| "fmul _ NaN = NaN"
| "fmul (Finite a) (Finite b) = round64 (a * b)"
| "fmul (Finite a) y = (if a = 0 then NaN else if (0 < a) = (y = PInf) then PInf else NInf)"
| "fmul x (Finite b) = (if b = 0 then NaN else if (0 < b) = (x = PInf) then PInf else NInf)"
| "fmul x y = (if x = y then PInf else NInf)"

fun fdiv :: "float \<Rightarrow> float \<Rightarrow> float run" where
  "fdiv x (Finite b) =
     (if b = 0 then raise ZeroDivisionError
      else ret (case x of
                  Finite a \<Rightarrow> round64 (a / b)
                | NaN \<Rightarrow> NaN
                | _ \<Rightarrow> if (0 < b) = (x = PInf) then PInf else NInf))"
| "fdiv NaN _ = ret NaN"
| "fdiv _ NaN = ret NaN"
| "fdiv (Finite a) _ = ret (Finite 0)"
| "fdiv _ _ = ret NaN"

text \<open>
  Lines 144-150 again, every operation in binary64.
\<close>

definition feq :: "float \<Rightarrow> float \<Rightarrow> bool" where
  "feq x y \<longleftrightarrow> x \<noteq> NaN \<and> x = y"

definition linefit_float :: "float \<times> float \<Rightarrow> float \<times> float \<Rightarrow> (float \<times> float) run" where
  "linefit_float p1 p2 =
     (if feq (snd p1) (snd p2) then ret (Finite 0, snd p1)
      else bnd (fdiv (fsub (snd p2) (snd p1)) (fsub (fst p2) (fst p1))) (\<lambda>m.
           let b = fsub (snd p1) (fmul m (fst p1)) in ret (m, b)))"

subsection \<open>The object and its constructor (lines 27-54)\<close>

record quad_gantry_level =
  max_adjust :: rat
  horizontal_move_a :: rat
  gantry_corners :: "point list"



subsection \<open>probe_finalize (lines 65-142)\<close>

text \<open>The recurring expression \<^verbatim>\<open>positions[i][k] + offsets[k]\<close>.\<close>

definition coord :: "rat list list \<Rightarrow> rat list \<Rightarrow> nat \<Rightarrow> nat \<Rightarrow> rat run" where
  "coord positions offsets i k =
     bnd (item positions i) (\<lambda>p. bnd (item p k) (\<lambda>v. bnd (item offsets k) (\<lambda>off.
     ret (v + off))))"

text \<open>
  \<^verbatim>\<open>self.plot(f, self.gantry_corners[c][0])\<close> and \<^verbatim>\<open>self.plot(f, self.gantry_corners[c][1])\<close>.
\<close>

definition plot_corner_x :: "quad_gantry_level \<Rightarrow> fit \<Rightarrow> nat \<Rightarrow> rat run" where
  "plot_corner_x self f c = bnd (item (gantry_corners self) c) (\<lambda>g. ret (plot f (fst g)))"

definition plot_corner_y :: "quad_gantry_level \<Rightarrow> fit \<Rightarrow> nat \<Rightarrow> rat run" where
  "plot_corner_y self f c = bnd (item (gantry_corners self) c) (\<lambda>g. ret (plot f (snd g)))"

text \<open>The local variables of \<^verbatim>\<open>probe_finalize\<close> at line 127.\<close>

record locals =
  a_positions :: "rat list"
  slope_x_pp03 :: fit
  slope_x_pp12 :: fit
  slope_y_s01 :: fit
  slope_y_s23 :: fit
  a_height :: "rat list"
  a_ave :: rat
  a_adjust :: "rat list"

text \<open>
  Lines 68-127: the computation of the adjustments, with its outputs. The divisor
  \<^verbatim>\<open>len(a_height)\<close> of line 123 is the length of a four-element list.
\<close>

definition calculate :: "quad_gantry_level \<Rightarrow> rat list \<Rightarrow> rat list list \<Rightarrow> locals run" where
  "calculate self offsets positions =
     bnd (comprehension (\<lambda>p. bnd (item p 3) (\<lambda>v. ret (horizontal_move_a self - v)))
            positions) (\<lambda>a_pos.
     bnd (emit (Respond_info (Points_message a_pos))) (\<lambda>_.
     bnd (pt (coord positions offsets 0 0) (item a_pos 0)) (\<lambda>ppx0.
     bnd (pt (coord positions offsets 3 0) (item a_pos 3)) (\<lambda>ppx3.
     bnd (linefit ppx0 ppx3) (\<lambda>f03.
     bnd (pt (coord positions offsets 1 0) (item a_pos 1)) (\<lambda>ppx1.
     bnd (pt (coord positions offsets 2 0) (item a_pos 2)) (\<lambda>ppx2.
     bnd (linefit ppx1 ppx2) (\<lambda>f12.
     bnd (emit (Logging_info (F1_f2 f03 f12))) (\<lambda>_.
     bnd (pt (coord positions offsets 0 1) (plot_corner_x self f03 0)) (\<lambda>a1.
     bnd (pt (coord positions offsets 1 1) (plot_corner_x self f12 0)) (\<lambda>a2.
     bnd (linefit a1 a2) (\<lambda>s01.
     bnd (pt (coord positions offsets 0 1) (plot_corner_x self f03 1)) (\<lambda>b1.
     bnd (pt (coord positions offsets 1 1) (plot_corner_x self f12 1)) (\<lambda>b2.
     bnd (linefit b1 b2) (\<lambda>s23.
     bnd (emit (Logging_info (Af_bf s01 s23))) (\<lambda>_.
     bnd (plot_corner_y self s01 0) (\<lambda>h0.
     bnd (plot_corner_y self s01 1) (\<lambda>h1.
     bnd (plot_corner_y self s23 1) (\<lambda>h2.
     bnd (plot_corner_y self s23 0) (\<lambda>h3.
     let heights = [h0, h1, h2, h3] in
     bnd (emit (Respond_info (Actuator_positions heights))) (\<lambda>_.
     let ave = sum_list heights / of_nat (length heights) in
     bnd (emit (Respond_info (Average ave))) (\<lambda>_.
     ret \<lparr>a_positions = a_pos,
          slope_x_pp03 = f03, slope_x_pp12 = f12,
          slope_y_s01 = s01, slope_y_s23 = s23,
          a_height = heights, a_ave = ave,
          a_adjust = map (\<lambda>a. ave - a) heights\<rparr>))))))))))))))))))))))"

text \<open>
  The collaborators of lines 138-142 are not part of the file; they are parameters:
  the lift speed of the probe helper, \<^verbatim>\<open>retry_helper.check_retry\<close> and
  \<^verbatim>\<open>a_status.check_retry_result\<close>, whose results are returned as they are. The message
  of the error of lines 131-136 is \<open>max_adjust_message\<close>.
\<close>

record ('c, 'r) collaborators =
  get_lift_speed :: rat
  check_retry :: "rat list \<Rightarrow> 'c"
  check_retry_result :: "'c \<Rightarrow> 'r"

definition max_adjust_message :: "rat \<Rightarrow> rat \<Rightarrow> piece list" where
  "max_adjust_message adjust_max limit =
     [Text ''Aborting quad_gantry_level required adjustment '', Float6 adjust_max,
      Text '' is greater than max_adjust '', Float6 limit]"

text \<open>
  The whole function: lines 68-127, then the gate of lines 129-136, the move of lines
  138-139 and the retry check of lines 140-142.
\<close>

definition probe_finalize ::
  "quad_gantry_level \<Rightarrow> ('c, 'r) collaborators \<Rightarrow> rat list \<Rightarrow> rat list list \<Rightarrow> 'r run" where
  "probe_finalize self env offsets positions =
     bnd (calculate self offsets positions) (\<lambda>l.
     bnd (max_of (a_adjust l)) (\<lambda>adjust_max.
     bnd (if adjust_max > max_adjust self
          then raise (Gcode_error (max_adjust_message adjust_max (max_adjust self)))
          else ret ()) (\<lambda>_.
     let speed = get_lift_speed env in
     bnd (emit (Adjust_steppers (a_adjust l) speed)) (\<lambda>_.
     bnd (emit (Check_retry (a_positions l))) (\<lambda>_.
     ret (check_retry_result env (check_retry env (a_positions l))))))))"

text \<open>The actuator moves a run has issued: the arguments of its \<open>adjust_steppers\<close> calls.\<close>

fun moves :: "effect list \<Rightarrow> (rat list \<times> rat) list" where
  "moves [] = []"
| "moves (Adjust_steppers adj speed # evs) = (adj, speed) # moves evs"
| "moves (_ # evs) = moves evs"

text \<open>
  A probing round as the probe helper delivers it to an object the constructor built:
  four samples of at least four coordinates each, an offset for X and for Y, and two
  gantry corners.
\<close>

definition valid_round :: "quad_gantry_level \<Rightarrow> rat list \<Rightarrow> rat list list \<Rightarrow> bool" where
  "valid_round self offsets positions \<longleftrightarrow>
     length positions = 4 \<and> list_all (\<lambda>p. 4 \<le> length p) positions \<and>
     2 \<le> length offsets \<and> 2 \<le> length (gantry_corners self)"

section \<open>Runs that return\<close>

text \<open>
  What a run that returns has done: one rule per operation of the model. With these
  rules a finished run of \<open>calculate\<close> is read back line by line.
\<close>

lemma bnd_ret: "bnd (ret a) f = f a"
  by (simp add: bnd_def ret_def)

lemma bnd_raise: "bnd (raise e) f = raise e"
  by (simp add: bnd_def raise_def)

lemma bnd_emit: "bnd (emit ev) f = apfst ((#) ev) (f ())"
  by (cases "f ()") (simp add: bnd_def emit_def)

lemma bnd_returns:
  "bnd m f = (t, Inr b) \<longleftrightarrow> (\<exists>t1 a t2. m = (t1, Inr a) \<and> f a = (t2, Inr b) \<and> t = t1 @ t2)"
  by (cases m; cases "snd m") (auto simp add: bnd_def prod_eq_iff)

lemma ret_returns: "ret a = (t, Inr b) \<longleftrightarrow> t = [] \<and> b = a"
  by (auto simp add: ret_def)

lemma raise_returns: "raise e = (t, Inr b) \<longleftrightarrow> False"
  by (simp add: raise_def)

lemma emit_returns: "emit ev = (t, Inr u) \<longleftrightarrow> t = [ev]"
  by (auto simp add: emit_def)

lemma item_returns: "item xs i = (t, Inr v) \<longleftrightarrow> t = [] \<and> i < length xs \<and> v = xs ! i"
  by (auto simp add: item_def ret_returns raise_returns)

lemma linefit_returns: "linefit p q = (t, Inr f) \<longleftrightarrow> t = [] \<and> linefit p q = ret f"
  by (auto simp add: linefit_def ret_def raise_def Let_def)

lemma comprehension_returns:
  "comprehension (\<lambda>p. bnd (item p 3) (\<lambda>v. ret (h - v))) ps = (t, Inr vs) \<longleftrightarrow>
   t = [] \<and> list_all (\<lambda>p. 4 \<le> length p) ps \<and> vs = map (\<lambda>p. h - p ! 3) ps"
  by (induction ps arbitrary: t vs)
     (auto simp add: bnd_returns ret_returns item_returns)

lemma coord_returns:
  "coord positions offsets i k = (t, Inr v) \<longleftrightarrow>
   t = [] \<and> i < length positions \<and> k < length (positions ! i) \<and> k < length offsets \<and>
   v = positions ! i ! k + offsets ! k"
  by (auto simp add: coord_def bnd_returns ret_returns item_returns)

lemma plot_corner_x_returns:
  "plot_corner_x self f c = (t, Inr v) \<longleftrightarrow>
   t = [] \<and> c < length (gantry_corners self) \<and> v = plot f (fst (gantry_corners self ! c))"
  by (auto simp add: plot_corner_x_def bnd_returns ret_returns item_returns)

lemma plot_corner_y_returns:
  "plot_corner_y self f c = (t, Inr v) \<longleftrightarrow>
   t = [] \<and> c < length (gantry_corners self) \<and> v = plot f (snd (gantry_corners self ! c))"
  by (auto simp add: plot_corner_y_def bnd_returns ret_returns item_returns)

lemma pt_returns:
  "pt e1 e2 = (t, Inr p) \<longleftrightarrow>
   (\<exists>t1 t2. e1 = (t1, Inr (fst p)) \<and> e2 = (t2, Inr (snd p)) \<and> t = t1 @ t2)"
  by (cases p) (auto simp add: pt_def bnd_returns ret_returns)

lemmas returns =
  bnd_returns ret_returns raise_returns emit_returns item_returns linefit_returns
  comprehension_returns coord_returns plot_corner_x_returns plot_corner_y_returns pt_returns

text \<open>
  A run of lines 68-127 that returns: every index was in range, and each local variable
  holds what its line of the source computes.
\<close>

lemma calculate_returns:
  assumes "calculate self offsets positions = (t, Inr l)"
  shows "4 \<le> length positions"
    and "list_all (\<lambda>p. 4 \<le> length p) positions"
    and "2 \<le> length offsets"
    and "2 \<le> length (gantry_corners self)"
    and "a_positions l = map (\<lambda>p. horizontal_move_a self - p ! 3) positions"
    and "linefit (positions ! 0 ! 0 + offsets ! 0, a_positions l ! 0)
                 (positions ! 3 ! 0 + offsets ! 0, a_positions l ! 3) = ret (slope_x_pp03 l)"
    and "linefit (positions ! 1 ! 0 + offsets ! 0, a_positions l ! 1)
                 (positions ! 2 ! 0 + offsets ! 0, a_positions l ! 2) = ret (slope_x_pp12 l)"
    and "linefit
           (positions ! 0 ! 1 + offsets ! 1, plot (slope_x_pp03 l) (fst (gantry_corners self ! 0)))
           (positions ! 1 ! 1 + offsets ! 1, plot (slope_x_pp12 l) (fst (gantry_corners self ! 0)))
         = ret (slope_y_s01 l)"
    and "linefit
           (positions ! 0 ! 1 + offsets ! 1, plot (slope_x_pp03 l) (fst (gantry_corners self ! 1)))
           (positions ! 1 ! 1 + offsets ! 1, plot (slope_x_pp12 l) (fst (gantry_corners self ! 1)))
         = ret (slope_y_s23 l)"
    and "a_height l =
           [plot (slope_y_s01 l) (snd (gantry_corners self ! 0)),
            plot (slope_y_s01 l) (snd (gantry_corners self ! 1)),
            plot (slope_y_s23 l) (snd (gantry_corners self ! 1)),
            plot (slope_y_s23 l) (snd (gantry_corners self ! 0))]"
    and "a_ave l = sum_list (a_height l) / 4"
    and "a_adjust l = map (\<lambda>a. a_ave l - a) (a_height l)"
    and "t = [Respond_info (Points_message (a_positions l)),
              Logging_info (F1_f2 (slope_x_pp03 l) (slope_x_pp12 l)),
              Logging_info (Af_bf (slope_y_s01 l) (slope_y_s23 l)),
              Respond_info (Actuator_positions (a_height l)),
              Respond_info (Average (a_ave l))]"
  using assms unfolding calculate_def Let_def
  by (auto simp add: returns)

section \<open>The calls a run has made\<close>

text \<open>
  A call is in the trace of a sequence when the first part made it, or the first part
  returned and the rest made it. The arithmetic and the index operations make no call.
\<close>

lemma in_trace_bnd:
  "ev \<in> set (fst (bnd m f)) \<longleftrightarrow>
   ev \<in> set (fst m) \<or> (\<exists>t a. m = (t, Inr a) \<and> ev \<in> set (fst (f a)))"
  by (cases m; cases "snd m") (auto simp add: bnd_def)

lemma fst_ret: "fst (ret a) = []"
  by (simp add: ret_def)

lemma fst_raise: "fst (raise e) = []"
  by (simp add: raise_def)

lemma fst_emit: "fst (emit ev) = [ev]"
  by (simp add: emit_def)

lemma fst_item: "fst (item xs i) = []"
  by (simp add: item_def fst_ret fst_raise)

lemma fst_linefit: "fst (linefit p q) = []"
  by (simp add: linefit_def fst_ret fst_raise Let_def)

lemma fst_bnd_pure: "fst m = [] \<Longrightarrow> (\<And>a. fst (f a) = []) \<Longrightarrow> fst (bnd m f) = []"
  by (simp add: bnd_def split: sum.split)

lemma fst_comprehension:
  "(\<And>p. fst (f p) = []) \<Longrightarrow> fst (comprehension f ps) = []"
  by (induction ps) (simp_all add: fst_ret fst_bnd_pure)

lemma fst_coord: "fst (coord positions offsets i k) = []"
  by (simp add: coord_def fst_bnd_pure fst_item fst_ret)

lemma fst_plot_corner_x: "fst (plot_corner_x self f c) = []"
  by (simp add: plot_corner_x_def fst_bnd_pure fst_item fst_ret)

lemma fst_plot_corner_y: "fst (plot_corner_y self f c) = []"
  by (simp add: plot_corner_y_def fst_bnd_pure fst_item fst_ret)

lemma fst_pt: "fst e1 = [] \<Longrightarrow> fst e2 = [] \<Longrightarrow> fst (pt e1 e2) = []"
  by (simp add: pt_def fst_bnd_pure fst_ret)

lemma fst_max_of: "fst (max_of xs) = []"
  by (cases xs) (simp_all add: fst_ret fst_raise)

lemmas pure =
  fst_ret fst_raise fst_emit fst_item fst_linefit fst_comprehension fst_coord
  fst_plot_corner_x fst_plot_corner_y fst_pt fst_max_of fst_bnd_pure

section \<open>Rounds with every index in range\<close>

text \<open>Forward evaluation: on a valid round no index operation raises.\<close>

lemma item_in_range: "i < length xs \<Longrightarrow> item xs i = ret (xs ! i)"
  by (simp add: item_def)

lemma snd_ret: "snd (ret a) = Inr a"
  by (simp add: ret_def)

lemma bnd_returned: "m = (t, Inr a) \<Longrightarrow> bnd m f = apfst ((@) t) (f a)"
  by (cases "f a") (simp add: bnd_def)

lemma comprehension_in_range:
  "list_all (\<lambda>p. 4 \<le> length p) ps \<Longrightarrow>
   comprehension (\<lambda>p. bnd (item p 3) (\<lambda>v. ret (h - v))) ps = ret (map (\<lambda>p. h - p ! 3) ps)"
  by (induction ps) (simp_all add: item_in_range bnd_ret)

lemma coord_in_range:
  "i < length positions \<Longrightarrow> k < length (positions ! i) \<Longrightarrow> k < length offsets \<Longrightarrow>
   coord positions offsets i k = ret (positions ! i ! k + offsets ! k)"
  by (simp add: coord_def item_in_range bnd_ret)

lemma plot_corner_x_in_range:
  "c < length (gantry_corners self) \<Longrightarrow>
   plot_corner_x self f c = ret (plot f (fst (gantry_corners self ! c)))"
  by (simp add: plot_corner_x_def item_in_range bnd_ret)

lemma plot_corner_y_in_range:
  "c < length (gantry_corners self) \<Longrightarrow>
   plot_corner_y self f c = ret (plot f (snd (gantry_corners self ! c)))"
  by (simp add: plot_corner_y_def item_in_range bnd_ret)

lemma pt_ret: "pt (ret x) (ret y) = ret (x, y)"
  by (simp add: pt_def bnd_ret)

lemma linefit_level: "linefit (x1, y) (x2, y) = ret (0, y)"
  by (simp add: linefit_def)

lemma plot_level: "plot (0, y) x = y"
  by (simp add: plot_def)

lemma list4:
  assumes "length xs = 4"
  obtains x0 x1 x2 x3 where "xs = [x0, x1, x2, x3]"
  using assms by (auto simp add: length_Suc_conv eval_nat_numeral)

lemma valid_round_coord:
  assumes "valid_round self offsets positions" and "i < 4" and "k < 2"
  shows "coord positions offsets i k = ret (positions ! i ! k + offsets ! k)"
proof -
  from assms have "i < length positions" "4 \<le> length (positions ! i)" "k < length offsets"
    by (auto simp add: valid_round_def list_all_length)
  with assms(3) show ?thesis by (simp add: coord_in_range)
qed

lemma valid_round_corner_x:
  assumes "valid_round self offsets positions" and "c < 2"
  shows "plot_corner_x self f c = ret (plot f (fst (gantry_corners self ! c)))"
  using assms by (simp add: plot_corner_x_in_range valid_round_def)

lemma valid_round_corner_y:
  assumes "valid_round self offsets positions" and "c < 2"
  shows "plot_corner_y self f c = ret (plot f (snd (gantry_corners self ! c)))"
  using assms by (simp add: plot_corner_y_in_range valid_round_def)

lemma valid_round_mirror:
  assumes "valid_round self offsets positions"
  shows "comprehension (\<lambda>p. bnd (item p 3) (\<lambda>v. ret (h - v))) positions =
         ret [h - positions ! 0 ! 3, h - positions ! 1 ! 3,
              h - positions ! 2 ! 3, h - positions ! 3 ! 3]"
proof -
  from assms have "length positions = 4" by (simp add: valid_round_def)
  then obtain p0 p1 p2 p3 where ps: "positions = [p0, p1, p2, p3]" by (rule list4)
  from assms have "list_all (\<lambda>p. 4 \<le> length p) positions"
    by (simp add: valid_round_def)
  then have "comprehension (\<lambda>p. bnd (item p 3) (\<lambda>v. ret (h - v))) positions =
      ret (map (\<lambda>p. h - p ! 3) positions)"
    by (rule comprehension_in_range)
  also have "map (\<lambda>p. h - p ! 3) positions =
      [h - positions ! 0 ! 3, h - positions ! 1 ! 3, h - positions ! 2 ! 3, h - positions ! 3 ! 3]"
    by (simp add: ps)
  finally show ?thesis .
qed

text \<open>
  A valid round finishes lines 68-127 whenever the probes of each X fit differ in X and
  probes 0 and 1 differ in Y: no fit divides by zero. (With equal heights a fit takes
  its first branch and needs no such condition.)
\<close>

lemma linefit_finishes:
  "x1 \<noteq> x2 \<Longrightarrow> \<exists>f. linefit (x1, y1) (x2, y2) = ret f"
  by (auto simp add: linefit_def Let_def)

lemma calculate_finishes:
  assumes v: "valid_round self offsets positions"
    and x03: "positions ! 0 ! 0 \<noteq> positions ! 3 ! 0"
    and x12: "positions ! 1 ! 0 \<noteq> positions ! 2 ! 0"
    and y01: "positions ! 0 ! 1 \<noteq> positions ! 1 ! 1"
  shows "\<exists>t l. calculate self offsets positions = (t, Inr l)"
proof -
  define h where "h = horizontal_move_a self"
  define c0 where "c0 = gantry_corners self ! 0"
  define c1 where "c1 = gantry_corners self ! 1"
  from x03 have "positions ! 0 ! 0 + offsets ! 0 \<noteq> positions ! 3 ! 0 + offsets ! 0" by simp
  from linefit_finishes [OF this] obtain f03 where f03:
    "linefit (positions ! 0 ! 0 + offsets ! 0, h - positions ! 0 ! 3)
             (positions ! 3 ! 0 + offsets ! 0, h - positions ! 3 ! 3) = ret f03"
    by blast
  from x12 have "positions ! 1 ! 0 + offsets ! 0 \<noteq> positions ! 2 ! 0 + offsets ! 0" by simp
  from linefit_finishes [OF this] obtain f12 where f12:
    "linefit (positions ! 1 ! 0 + offsets ! 0, h - positions ! 1 ! 3)
             (positions ! 2 ! 0 + offsets ! 0, h - positions ! 2 ! 3) = ret f12"
    by blast
  from y01 have y: "positions ! 0 ! 1 + offsets ! 1 \<noteq> positions ! 1 ! 1 + offsets ! 1" by simp
  from linefit_finishes [OF y] obtain s01 where s01:
    "linefit (positions ! 0 ! 1 + offsets ! 1, plot f03 (fst c0))
             (positions ! 1 ! 1 + offsets ! 1, plot f12 (fst c0)) = ret s01"
    by blast
  from linefit_finishes [OF y] obtain s23 where s23:
    "linefit (positions ! 0 ! 1 + offsets ! 1, plot f03 (fst c1))
             (positions ! 1 ! 1 + offsets ! 1, plot f12 (fst c1)) = ret s23"
    by blast
  note fits = f03 [unfolded h_def] f12 [unfolded h_def] s01 [unfolded c0_def]
    s23 [unfolded c1_def]
  have "\<exists>l. snd (calculate self offsets positions) = Inr l"
    unfolding calculate_def valid_round_mirror [OF v]
    by (simp add: valid_round_coord [OF v] valid_round_corner_x [OF v]
        valid_round_corner_y [OF v] item_in_range pt_ret bnd_ret bnd_emit
        fits [simplified] snd_ret Let_def)
  then show ?thesis by (metis prod.collapse)
qed

section \<open>The adjustments at the gate\<close>

lemma max_of_nonempty: "xs \<noteq> [] \<Longrightarrow> max_of xs = ret (Max (set xs))"
proof (cases xs)
  case Nil
  assume "xs \<noteq> []"
  with Nil show ?thesis by simp
next
  case (Cons x ys)
  have "fold max ys x = Max (set (x # ys))" by (simp only: Max.set_eq_fold)
  with Cons show ?thesis by (simp del: set_simps)
qed

lemma calculate_adjust_nonempty:
  assumes "calculate self offsets positions = (t, Inr l)"
  shows "a_adjust l \<noteq> []"
  using calculate_returns(10) [OF assms] calculate_returns(12) [OF assms] by simp

lemma calculate_moves:
  assumes "calculate self offsets positions = (t, Inr l)"
  shows "moves t = []"
  using calculate_returns(13) [OF assms] by simp

section \<open>Two concrete rounds\<close>

text \<open>
  Probes at the corners of the unit square, the gantry corners at \<open>(0, 0)\<close> and
  \<open>(1, 1)\<close>, no offsets: the actuator heights are the mirrored samples. In the first
  round corner 0 stands 8 above the others, in the second 8 below.
\<close>

lemma calculate_twisted:
  "calculate \<lparr>max_adjust = 4, horizontal_move_a = 5, gantry_corners = [(0, 0), (1, 1)]\<rparr>
     [0, 0, 0] [[0, 0, 0, -3], [0, 1, 0, 5], [1, 1, 0, 5], [1, 0, 0, 5]] =
   ([Respond_info (Points_message [8, 0, 0, 0]),
     Logging_info (F1_f2 (- 8, 8) (0, 0)),
     Logging_info (Af_bf (- 8, 8) (0, 0)),
     Respond_info (Actuator_positions [8, 0, 0, 0]),
     Respond_info (Average 2)],
    Inr \<lparr>a_positions = [8, 0, 0, 0], slope_x_pp03 = (- 8, 8), slope_x_pp12 = (0, 0),
         slope_y_s01 = (- 8, 8), slope_y_s23 = (0, 0), a_height = [8, 0, 0, 0], a_ave = 2,
         a_adjust = [- 6, 2, 2, 2]\<rparr>)"
  by (simp add: calculate_def coord_def plot_corner_x_def plot_corner_y_def pt_def item_def
      linefit_def plot_def bnd_ret bnd_emit bnd_raise Let_def)
     (simp add: ret_def)

lemma calculate_sagging:
  "calculate \<lparr>max_adjust = 4, horizontal_move_a = 5, gantry_corners = [(0, 0), (1, 1)]\<rparr>
     [0, 0, 0] [[0, 0, 0, 13], [0, 1, 0, 5], [1, 1, 0, 5], [1, 0, 0, 5]] =
   ([Respond_info (Points_message [- 8, 0, 0, 0]),
     Logging_info (F1_f2 (8, - 8) (0, 0)),
     Logging_info (Af_bf (8, - 8) (0, 0)),
     Respond_info (Actuator_positions [- 8, 0, 0, 0]),
     Respond_info (Average (- 2))],
    Inr \<lparr>a_positions = [- 8, 0, 0, 0], slope_x_pp03 = (8, - 8), slope_x_pp12 = (0, 0),
         slope_y_s01 = (8, - 8), slope_y_s23 = (0, 0), a_height = [- 8, 0, 0, 0],
         a_ave = - 2, a_adjust = [6, - 2, - 2, - 2]\<rparr>)"
  by (simp add: calculate_def coord_def plot_corner_x_def plot_corner_y_def pt_def item_def
      linefit_def plot_def bnd_ret bnd_emit bnd_raise Let_def)
     (simp add: ret_def)

text \<open>
  The first round passes the gate: the whole of \<open>probe_finalize\<close>, with collaborators
  that hand the measurement back.
\<close>

lemma probe_finalize_twisted:
  "probe_finalize \<lparr>max_adjust = 4, horizontal_move_a = 5, gantry_corners = [(0, 0), (1, 1)]\<rparr>
     \<lparr>get_lift_speed = 10, check_retry = id, check_retry_result = id\<rparr>
     [0, 0, 0] [[0, 0, 0, - 3], [0, 1, 0, 5], [1, 1, 0, 5], [1, 0, 0, 5]] =
   ([Respond_info (Points_message [8, 0, 0, 0]),
      Logging_info (F1_f2 (- 8, 8) (0, 0)),
      Logging_info (Af_bf (- 8, 8) (0, 0)),
      Respond_info (Actuator_positions [8, 0, 0, 0]),
      Respond_info (Average 2)] @
     [Adjust_steppers [- 6, 2, 2, 2] 10, Check_retry [8, 0, 0, 0]],
    Inr [8, 0, 0, 0])"
  unfolding probe_finalize_def
  by (simp add: bnd_returned [OF calculate_twisted] bnd_ret bnd_emit Let_def)
     (simp add: ret_def)

section \<open>Where the actuator moves come from\<close>

text \<open>
  Lines 68-127 make no \<open>adjust_steppers\<close> call; a move that \<open>probe_finalize\<close> issued
  carries the adjustments of a finished calculation and the lift speed.
\<close>

lemma calculate_makes_no_move:
  "Adjust_steppers adj speed \<notin> set (fst (calculate self offsets positions))"
  unfolding calculate_def Let_def
  by (auto simp add: in_trace_bnd pure returns)

lemma issued_move:
  assumes "Adjust_steppers adj speed \<in> set (fst (probe_finalize self env offsets positions))"
  shows "\<exists>t l. calculate self offsets positions = (t, Inr l) \<and> adj = a_adjust l \<and>
           speed = get_lift_speed env"
  using assms calculate_makes_no_move [of adj speed self offsets positions]
  unfolding probe_finalize_def Let_def
  by (auto simp add: in_trace_bnd pure returns split: if_splits)

section \<open>Binary64 rounding\<close>






lemma rne_nearest:
  "\<bar>q - of_int (rne q)\<bar> \<le> 1 / 2 \<and> (\<bar>q - of_int (rne q)\<bar> = 1 / 2 \<longrightarrow> even (rne q))"
proof -
  define f where "f = \<lfloor>q\<rfloor>"
  define d where "d = q - of_int f"
  have "0 \<le> d" "d < 1" by (simp_all add: d_def f_def) linarith+
  then show ?thesis
    unfolding rne_def Let_def f_def [symmetric] d_def [symmetric]
    by (auto simp add: d_def abs_if)
qed



text \<open>
  Where no operation rounds, the binary64 reading of \<open>linefit\<close> is the exact one.
\<close>

lemma feq_Finite: "feq (Finite a) (Finite b) \<longleftrightarrow> a = b"
  by (auto simp add: feq_def)

lemma fsub_Finite: "fsub (Finite a) (Finite b) = round64 (a - b)"
  by (simp add: fsub_def)

lemma linefit_float_exact:
  assumes "is_double (y2 - y1)" and "is_double (x2 - x1)"
    and "is_double ((y2 - y1) / (x2 - x1))"
    and "is_double ((y2 - y1) / (x2 - x1) * x1)"
    and "is_double (y1 - (y2 - y1) / (x2 - x1) * x1)"
  shows "linefit_float (Finite x1, Finite y1) (Finite x2, Finite y2) =
         bnd (linefit (x1, y1) (x2, y2)) (\<lambda>f. ret (Finite (fst f), Finite (snd f)))"
  using assms
  by (simp add: linefit_float_def linefit_def feq_Finite fsub_Finite is_double_def
      bnd_ret bnd_raise Let_def)













section \<open>linefit\<close>

text \<open>
  C4. Two points with the same y-value: \<open>linefit\<close> returns slope 0 and that y-value as
  intercept, whatever the two x-values are, also when they are equal; it raises nothing
  and calls no collaborator.
\<close>

theorem linefit_equal_y: "linefit (x1, y) (x2, y) = ret (0, y)"
  by (simp add: linefit_def)

theorem linefit_equal_y_witness:
  "linefit (3, 7) (3, 7) = ret (0, 7) \<and> linefit (1, 7) (2, 7) = ret (0, 7)"
  using linefit_equal_y [of 3 7 3] linefit_equal_y [of 1 7 2] by simp




text \<open>
  C10. The guard of \<open>linefit\<close> compares the y-values: whenever the x-values differ or
  the y-values are equal, \<open>linefit\<close> returns a fit; it raises \<^verbatim>\<open>ZeroDivisionError\<close>
  exactly when the x-values are equal and the y-values differ.
\<close>

theorem linefit_zero_division:
  "(x1 \<noteq> x2 \<or> y1 = y2 \<longrightarrow> (\<exists>f. linefit (x1, y1) (x2, y2) = ret f)) \<and>
   (linefit (x1, y1) (x2, y2) = raise ZeroDivisionError \<longleftrightarrow> x1 = x2 \<and> y1 \<noteq> y2)"
  by (auto simp add: linefit_def ret_def raise_def Let_def)

theorem linefit_zero_division_witness:
  "(\<exists>f. linefit (1, 2) (3, 8) = ret f) \<and> (\<exists>f. linefit (1, 2) (1, 2) = ret f) \<and>
   linefit (1, 2) (1, 8) = raise ZeroDivisionError"
  using linefit_zero_division [of 1 3 2 8] linefit_zero_division [of 1 1 2 2]
    linefit_zero_division [of 1 1 2 8] by simp

section \<open>The constructor\<close>



section \<open>The calculation of the adjustments\<close>



text \<open>
  C2. When lines 68-127 finish, the four actuator heights are, in this order,
  \<open>slope_y_s01\<close> at the Y of corner 0, \<open>slope_y_s01\<close> at the Y of corner 1,
  \<open>slope_y_s23\<close> at the Y of corner 1 and \<open>slope_y_s23\<close> at the Y of corner 0, where
  \<open>slope_y_s01\<close> and \<open>slope_y_s23\<close> are the Y fits at the X of corner 0 and of corner 1;
  both corners exist, and these heights are the ones reported.
\<close>

theorem actuator_heights_crossed:
  assumes "calculate self offsets positions = (t, Inr l)"
  shows "a_height l =
           [plot (slope_y_s01 l) (snd (gantry_corners self ! 0)),
            plot (slope_y_s01 l) (snd (gantry_corners self ! 1)),
            plot (slope_y_s23 l) (snd (gantry_corners self ! 1)),
            plot (slope_y_s23 l) (snd (gantry_corners self ! 0))] \<and>
         linefit
           (positions ! 0 ! 1 + offsets ! 1, plot (slope_x_pp03 l) (fst (gantry_corners self ! 0)))
           (positions ! 1 ! 1 + offsets ! 1, plot (slope_x_pp12 l) (fst (gantry_corners self ! 0)))
           = ret (slope_y_s01 l) \<and>
         linefit
           (positions ! 0 ! 1 + offsets ! 1, plot (slope_x_pp03 l) (fst (gantry_corners self ! 1)))
           (positions ! 1 ! 1 + offsets ! 1, plot (slope_x_pp12 l) (fst (gantry_corners self ! 1)))
           = ret (slope_y_s23 l) \<and>
         2 \<le> length (gantry_corners self) \<and>
         Respond_info (Actuator_positions (a_height l)) \<in> set t"
  using calculate_returns(4,8,9,10,13) [OF assms] by simp

theorem actuator_heights_crossed_witness:
  "calculate \<lparr>max_adjust = 4, horizontal_move_a = 5, gantry_corners = [(0, 0), (1, 1)]\<rparr>
     [0, 0, 0] [[0, 0, 0, - 3], [0, 1, 0, 5], [1, 1, 0, 5], [1, 0, 0, 5]] =
   ([Respond_info (Points_message [8, 0, 0, 0]),
      Logging_info (F1_f2 (- 8, 8) (0, 0)),
      Logging_info (Af_bf (- 8, 8) (0, 0)),
      Respond_info (Actuator_positions [8, 0, 0, 0]),
      Respond_info (Average 2)],
    Inr \<lparr>a_positions = [8, 0, 0, 0], slope_x_pp03 = (- 8, 8), slope_x_pp12 = (0, 0),
         slope_y_s01 = (- 8, 8), slope_y_s23 = (0, 0), a_height = [8, 0, 0, 0], a_ave = 2,
         a_adjust = [- 6, 2, 2, 2]\<rparr>) \<and>
   [8, 0, 0, 0] = [plot (- 8, 8) 0, plot (- 8, 8) 1, plot (0, 0) 1, plot (0, 0) 0] \<and>
   linefit (0, plot (- 8, 8) 0) (1, plot (0, 0) 0) = ret (- 8, 8) \<and>
   linefit (0, plot (- 8, 8) 1) (1, plot (0, 0) 1) = ret (0, 0)"
  using actuator_heights_crossed [OF calculate_twisted] calculate_twisted
  by (simp add: plot_def)

text \<open>
  C3. When lines 68-127 finish, there are four heights, each adjustment is their mean
  minus a height, and the adjustments sum to zero, exactly. So does every vector of
  adjustments that \<open>probe_finalize\<close> hands to \<open>adjust_steppers\<close>.
\<close>

theorem adjustments_sum_to_zero:
  "(calculate self offsets positions = (t, Inr l) \<longrightarrow>
      length (a_height l) = 4 \<and>
      a_ave l = sum_list (a_height l) / 4 \<and>
      a_adjust l = map (\<lambda>a. a_ave l - a) (a_height l) \<and>
      sum_list (a_adjust l) = 0) \<and>
   (Adjust_steppers adj speed \<in> set (fst (probe_finalize self env offsets positions)) \<longrightarrow>
      length adj = 4 \<and> sum_list adj = 0)"
proof -
  have calc: "length (a_height l) = 4 \<and> a_ave l = sum_list (a_height l) / 4 \<and>
      a_adjust l = map (\<lambda>a. a_ave l - a) (a_height l) \<and> sum_list (a_adjust l) = 0"
    if r: "calculate self offsets positions = (t, Inr l)" for t l
  proof -
    obtain h0 h1 h2 h3 where h: "a_height l = [h0, h1, h2, h3]"
      using calculate_returns(10) [OF r] by blast
    note ave = calculate_returns(11) [OF r]
    note adj = calculate_returns(12) [OF r]
    have "sum_list (a_adjust l) = 4 * a_ave l - (h0 + h1 + h2 + h3)"
      by (simp add: adj h)
    also have "\<dots> = 0" by (simp add: ave h)
    finally show ?thesis using ave adj h by simp
  qed
  have "length adj = 4 \<and> sum_list adj = 0"
    if "Adjust_steppers adj speed \<in> set (fst (probe_finalize self env offsets positions))"
  proof -
    from issued_move [OF that] obtain t' l' where
      r: "calculate self offsets positions = (t', Inr l')" and a: "adj = a_adjust l'" by blast
    from calc [OF r] have "length (a_height l') = 4"
      and "a_adjust l' = map (\<lambda>a. a_ave l' - a) (a_height l')"
      and z: "sum_list (a_adjust l') = 0" by blast+
    then have "length (a_adjust l') = 4" by simp
    with z show ?thesis unfolding a by blast
  qed
  with calc show ?thesis by blast
qed

theorem adjustments_sum_to_zero_witness:
  "calculate \<lparr>max_adjust = 4, horizontal_move_a = 5, gantry_corners = [(0, 0), (1, 1)]\<rparr>
     [0, 0, 0] [[0, 0, 0, - 3], [0, 1, 0, 5], [1, 1, 0, 5], [1, 0, 0, 5]] =
   ([Respond_info (Points_message [8, 0, 0, 0]),
      Logging_info (F1_f2 (- 8, 8) (0, 0)),
      Logging_info (Af_bf (- 8, 8) (0, 0)),
      Respond_info (Actuator_positions [8, 0, 0, 0]),
      Respond_info (Average 2)],
    Inr \<lparr>a_positions = [8, 0, 0, 0], slope_x_pp03 = (- 8, 8), slope_x_pp12 = (0, 0),
         slope_y_s01 = (- 8, 8), slope_y_s23 = (0, 0), a_height = [8, 0, 0, 0], a_ave = 2,
         a_adjust = [- 6, 2, 2, 2]\<rparr>) \<and>
   sum_list [- 6, 2, 2, 2 :: rat] = 0 \<and>
   Adjust_steppers [- 6, 2, 2, 2] 10 \<in> set (fst (probe_finalize
      \<lparr>max_adjust = 4, horizontal_move_a = 5, gantry_corners = [(0, 0), (1, 1)]\<rparr>
      \<lparr>get_lift_speed = 10, check_retry = id, check_retry_result = id\<rparr>
      [0, 0, 0] [[0, 0, 0, - 3], [0, 1, 0, 5], [1, 1, 0, 5], [1, 0, 0, 5]])) \<and>
   length [- 6, 2, 2, 2 :: rat] = 4"
  using adjustments_sum_to_zero [where adj = "[- 6, 2, 2, 2]" and speed = 10
      and self = "\<lparr>max_adjust = 4, horizontal_move_a = 5, gantry_corners = [(0, 0), (1, 1)]\<rparr>"
      and env = "\<lparr>get_lift_speed = 10, check_retry = id, check_retry_result = id\<rparr>"
      and offsets = "[0, 0, 0]"
      and positions = "[[0, 0, 0, - 3], [0, 1, 0, 5], [1, 1, 0, 5], [1, 0, 0, 5]]"
      and t = "[Respond_info (Points_message [8, 0, 0, 0]),
      Logging_info (F1_f2 (- 8, 8) (0, 0)),
      Logging_info (Af_bf (- 8, 8) (0, 0)),
      Respond_info (Actuator_positions [8, 0, 0, 0]),
      Respond_info (Average 2)]"
      and l = "\<lparr>a_positions = [8, 0, 0, 0], slope_x_pp03 = (- 8, 8), slope_x_pp12 = (0, 0),
         slope_y_s01 = (- 8, 8), slope_y_s23 = (0, 0), a_height = [8, 0, 0, 0], a_ave = 2,
         a_adjust = [- 6, 2, 2, 2]\<rparr>"]
  by (simp add: probe_finalize_twisted calculate_twisted)

text \<open>
  C6. On a valid round whose four samples have the same fourth coordinate, lines 68-127
  finish (no fit divides), all four heights are the mirrored value and all four
  adjustments are zero, whatever the XY positions, the offsets and the corners are.
\<close>

theorem level_gantry_needs_no_correction:
  assumes "valid_round self offsets positions"
    and "list_all (\<lambda>p. p ! 3 = v) positions"
  shows "\<exists>t l. calculate self offsets positions = (t, Inr l) \<and>
           a_height l = [horizontal_move_a self - v, horizontal_move_a self - v,
                         horizontal_move_a self - v, horizontal_move_a self - v] \<and>
           a_adjust l = [0, 0, 0, 0]"
proof -
  note v = assms(1)
  from v have "length positions = 4" by (simp add: valid_round_def)
  with assms(2) have same: "positions ! 0 ! 3 = v" "positions ! 1 ! 3 = v"
    "positions ! 2 ! 3 = v" "positions ! 3 ! 3 = v"
    by (simp_all add: list_all_length)
  define a where "a = horizontal_move_a self - v"
  have "snd (calculate self offsets positions) =
      Inr \<lparr>a_positions = [a, a, a, a],
           slope_x_pp03 = (0, a), slope_x_pp12 = (0, a),
           slope_y_s01 = (0, a), slope_y_s23 = (0, a),
           a_height = [a, a, a, a], a_ave = a, a_adjust = [0, 0, 0, 0]\<rparr>"
    unfolding calculate_def valid_round_mirror [OF v] same a_def [symmetric]
    by (simp add: valid_round_coord [OF v] valid_round_corner_x [OF v]
        valid_round_corner_y [OF v] item_in_range pt_ret bnd_ret bnd_emit
        linefit_level plot_level snd_ret Let_def)
  then have "calculate self offsets positions =
      (fst (calculate self offsets positions),
       Inr \<lparr>a_positions = [a, a, a, a],
           slope_x_pp03 = (0, a), slope_x_pp12 = (0, a),
           slope_y_s01 = (0, a), slope_y_s23 = (0, a),
           a_height = [a, a, a, a], a_ave = a, a_adjust = [0, 0, 0, 0]\<rparr>)"
    by (simp add: prod_eq_iff)
  then show ?thesis unfolding a_def by fastforce
qed

theorem level_gantry_needs_no_correction_witness:
  "valid_round \<lparr>max_adjust = 4, horizontal_move_a = 5, gantry_corners = [(- 60, - 10), (410, 420)]\<rparr>
     [3, 4, 1] [[50, 25, 10, 5], [50, 225, 10, 5], [250, 225, 10, 5], [250, 25, 10, 5]] \<and>
   list_all (\<lambda>p. p ! 3 = (5 :: rat)) [[50, 25, 10, 5], [50, 225, 10, 5], [250, 225, 10, 5], [250, 25, 10, 5]] \<and>
   (\<exists>t l. calculate \<lparr>max_adjust = 4, horizontal_move_a = 5, gantry_corners = [(- 60, - 10), (410, 420)]\<rparr>
      [3, 4, 1] [[50, 25, 10, 5], [50, 225, 10, 5], [250, 225, 10, 5], [250, 25, 10, 5]] = (t, Inr l) \<and>
      a_height l = [0, 0, 0, 0] \<and> a_adjust l = [0, 0, 0, 0])"
proof -
  have v: "valid_round \<lparr>max_adjust = 4, horizontal_move_a = 5, gantry_corners = [(- 60, - 10), (410, 420)]\<rparr>
     [3, 4, 1] [[50, 25, 10, 5], [50, 225, 10, 5], [250, 225, 10, 5], [250, 25, 10, 5]]"
    by (simp add: valid_round_def)
  have s: "list_all (\<lambda>p. p ! 3 = (5 :: rat)) [[50, 25, 10, 5], [50, 225, 10, 5], [250, 225, 10, 5], [250, 25, 10, 5]]"
    by simp
  from level_gantry_needs_no_correction [OF v s] v s show ?thesis by simp
qed

section \<open>The max_adjust gate\<close>

text \<open>
  C1 as written fails: the gate of line 130 compares the largest adjustment, with its
  sign. In this round the adjustments are \<open>[-6, 2, 2, 2]\<close> and \<open>max_adjust\<close> is 4: one
  adjustment exceeds \<open>max_adjust\<close> in absolute value, and \<open>probe_finalize\<close> raises nothing
  and issues the move.
\<close>

theorem max_adjust_gate_absolute_counterexample:
  "calculate \<lparr>max_adjust = 4, horizontal_move_a = 5, gantry_corners = [(0, 0), (1, 1)]\<rparr>
     [0, 0, 0] [[0, 0, 0, - 3], [0, 1, 0, 5], [1, 1, 0, 5], [1, 0, 0, 5]] =
   ([Respond_info (Points_message [8, 0, 0, 0]),
      Logging_info (F1_f2 (- 8, 8) (0, 0)),
      Logging_info (Af_bf (- 8, 8) (0, 0)),
      Respond_info (Actuator_positions [8, 0, 0, 0]),
      Respond_info (Average 2)],
    Inr \<lparr>a_positions = [8, 0, 0, 0], slope_x_pp03 = (- 8, 8), slope_x_pp12 = (0, 0),
         slope_y_s01 = (- 8, 8), slope_y_s23 = (0, 0), a_height = [8, 0, 0, 0], a_ave = 2,
         a_adjust = [- 6, 2, 2, 2]\<rparr>) \<and>
   (4 :: rat) < \<bar>- 6\<bar> \<and>
   probe_finalize \<lparr>max_adjust = 4, horizontal_move_a = 5, gantry_corners = [(0, 0), (1, 1)]\<rparr>
     \<lparr>get_lift_speed = 10, check_retry = id, check_retry_result = id\<rparr>
     [0, 0, 0] [[0, 0, 0, - 3], [0, 1, 0, 5], [1, 1, 0, 5], [1, 0, 0, 5]] =
   ([Respond_info (Points_message [8, 0, 0, 0]),
      Logging_info (F1_f2 (- 8, 8) (0, 0)),
      Logging_info (Af_bf (- 8, 8) (0, 0)),
      Respond_info (Actuator_positions [8, 0, 0, 0]),
      Respond_info (Average 2)] @
     [Adjust_steppers [- 6, 2, 2, 2] 10, Check_retry [8, 0, 0, 0]],
    Inr [8, 0, 0, 0])"
  by (simp add: calculate_twisted probe_finalize_twisted)

text \<open>
  C1, amended. In every round whose adjustments are computed, if some adjustment (with
  its sign) exceeds \<open>max_adjust\<close>, \<open>probe_finalize\<close> raises the error whose message
  contains the largest adjustment and \<open>max_adjust\<close>, and it makes no \<open>adjust_steppers\<close>
  call in that round.
\<close>

theorem max_adjust_gate_raises:
  assumes "calculate self offsets positions = (t, Inr l)"
    and "\<exists>a \<in> set (a_adjust l). max_adjust self < a"
  shows "probe_finalize self env offsets positions =
           (t, Inl (Gcode_error
              (max_adjust_message (Max (set (a_adjust l))) (max_adjust self)))) \<and>
         Float6 (Max (set (a_adjust l))) \<in>
           set (max_adjust_message (Max (set (a_adjust l))) (max_adjust self)) \<and>
         Float6 (max_adjust self) \<in>
           set (max_adjust_message (Max (set (a_adjust l))) (max_adjust self)) \<and>
         moves (fst (probe_finalize self env offsets positions)) = []"
proof -
  from assms(2) obtain a where a: "a \<in> set (a_adjust l)" "max_adjust self < a" by blast
  then have "a \<le> Max (set (a_adjust l))" by simp
  with a(2) have gt: "max_adjust self < Max (set (a_adjust l))" by (rule less_le_trans)
  have ne: "a_adjust l \<noteq> []" using a by auto
  have run: "probe_finalize self env offsets positions =
      (t, Inl (Gcode_error (max_adjust_message (Max (set (a_adjust l))) (max_adjust self))))"
    unfolding probe_finalize_def
    by (simp add: bnd_returned [OF assms(1)] max_of_nonempty [OF ne] bnd_ret bnd_raise gt)
       (simp add: raise_def)
  show ?thesis
    by (simp add: run calculate_moves [OF assms(1)]) (simp add: max_adjust_message_def)
qed

theorem max_adjust_gate_raises_witness:
  "(\<exists>a \<in> set [6, - 2, - 2, - 2 :: rat]. 4 < a) \<and>
   probe_finalize \<lparr>max_adjust = 4, horizontal_move_a = 5, gantry_corners = [(0, 0), (1, 1)]\<rparr>
     \<lparr>get_lift_speed = 10, check_retry = id, check_retry_result = id\<rparr>
     [0, 0, 0] [[0, 0, 0, 13], [0, 1, 0, 5], [1, 1, 0, 5], [1, 0, 0, 5]] =
   ([Respond_info (Points_message [- 8, 0, 0, 0]),
      Logging_info (F1_f2 (8, - 8) (0, 0)),
      Logging_info (Af_bf (8, - 8) (0, 0)),
      Respond_info (Actuator_positions [- 8, 0, 0, 0]),
      Respond_info (Average (- 2))],
    Inl (Gcode_error (max_adjust_message 6 4))) \<and>
   Float6 6 \<in> set (max_adjust_message 6 4) \<and> Float6 4 \<in> set (max_adjust_message 6 4) \<and>
   moves (fst (probe_finalize \<lparr>max_adjust = 4, horizontal_move_a = 5, gantry_corners = [(0, 0), (1, 1)]\<rparr>
     \<lparr>get_lift_speed = 10, check_retry = id, check_retry_result = id\<rparr>
     [0, 0, 0] [[0, 0, 0, 13], [0, 1, 0, 5], [1, 1, 0, 5], [1, 0, 0, 5]])) = []"
proof -
  have h: "\<exists>a \<in> set (a_adjust \<lparr>a_positions = [- 8, 0, 0, 0], slope_x_pp03 = (8, - 8),
      slope_x_pp12 = (0, 0), slope_y_s01 = (8, - 8), slope_y_s23 = (0, 0),
      a_height = [- 8, 0, 0, 0], a_ave = - 2, a_adjust = [6, - 2, - 2, - 2]\<rparr>).
      max_adjust \<lparr>max_adjust = 4, horizontal_move_a = 5, gantry_corners = [(0, 0), (1, 1)]\<rparr> < a"
    by simp
  from max_adjust_gate_raises [OF calculate_sagging h,
      of "\<lparr>get_lift_speed = 10, check_retry = id, check_retry_result = id\<rparr>"]
  show ?thesis by simp
qed

text \<open>
  C9. In every round whose adjustments are computed and whose largest adjustment (with
  its sign) is at most \<open>max_adjust\<close>, the gate raises nothing: \<open>probe_finalize\<close> issues
  the move with these adjustments at the lift speed, asks the retry helper, and returns
  what the retry collaborators return. The witness is a round with an adjustment below
  \<open>- max_adjust\<close>.
\<close>

theorem max_adjust_gate_passes:
  assumes "calculate self offsets positions = (t, Inr l)"
    and "Max (set (a_adjust l)) \<le> max_adjust self"
  shows "probe_finalize self env offsets positions =
           (t @ [Adjust_steppers (a_adjust l) (get_lift_speed env), Check_retry (a_positions l)],
            Inr (check_retry_result env (check_retry env (a_positions l))))"
proof -
  have ne: "a_adjust l \<noteq> []" by (rule calculate_adjust_nonempty [OF assms(1)])
  from assms(2) have le: "\<not> max_adjust self < Max (set (a_adjust l))" by simp
  show ?thesis
    unfolding probe_finalize_def
    by (simp add: bnd_returned [OF assms(1)] max_of_nonempty [OF ne] bnd_ret bnd_emit le
        Let_def) (simp add: ret_def)
qed

theorem max_adjust_gate_passes_witness:
  "Max (set [- 6, 2, 2, 2 :: rat]) \<le> 4 \<and> (- 6 :: rat) < - 4 \<and>
   probe_finalize \<lparr>max_adjust = 4, horizontal_move_a = 5, gantry_corners = [(0, 0), (1, 1)]\<rparr>
     \<lparr>get_lift_speed = 10, check_retry = id, check_retry_result = id\<rparr>
     [0, 0, 0] [[0, 0, 0, - 3], [0, 1, 0, 5], [1, 1, 0, 5], [1, 0, 0, 5]] =
   ([Respond_info (Points_message [8, 0, 0, 0]),
      Logging_info (F1_f2 (- 8, 8) (0, 0)),
      Logging_info (Af_bf (- 8, 8) (0, 0)),
      Respond_info (Actuator_positions [8, 0, 0, 0]),
      Respond_info (Average 2)] @
     [Adjust_steppers [- 6, 2, 2, 2] 10, Check_retry [8, 0, 0, 0]],
    Inr [8, 0, 0, 0])"
proof -
  have h: "Max (set (a_adjust \<lparr>a_positions = [8, 0, 0, 0], slope_x_pp03 = (- 8, 8), slope_x_pp12 = (0, 0),
         slope_y_s01 = (- 8, 8), slope_y_s23 = (0, 0), a_height = [8, 0, 0, 0], a_ave = 2,
         a_adjust = [- 6, 2, 2, 2]\<rparr>)) \<le> max_adjust \<lparr>max_adjust = 4, horizontal_move_a = 5, gantry_corners = [(0, 0), (1, 1)]\<rparr>"
    by simp
  from max_adjust_gate_passes [OF calculate_twisted h,
      of "\<lparr>get_lift_speed = 10, check_retry = id, check_retry_result = id\<rparr>"]
  show ?thesis by simp
qed

end
